theory Spec2Isabelle
  imports Complex_Main "HOL-Library.Sublist"
begin

section \<open>Text\<close>

text \<open>
  A Python \<^verbatim>\<open>str\<close> is a sequence of Unicode code points and \<^verbatim>\<open>len\<close> counts code
  points, so text is a list of code points. \<open>str\<close> embeds an ASCII literal; the Korean
  literals of the source are written out as code points.
\<close>

type_synonym ustr = "nat list"

definition str :: "string \<Rightarrow> ustr" where
  "str s = map of_char s"

definition nl :: ustr where
  "nl = [10]"

text \<open>\<^verbatim>\<open>str.isspace\<close> for one code point; the regular expression class \<^verbatim>\<open>\s\<close> of a
  \<^verbatim>\<open>str\<close> pattern is the same set.\<close>

definition isspace :: "nat \<Rightarrow> bool" where
  "isspace c \<longleftrightarrow>
     (9 \<le> c \<and> c \<le> 13) \<or> (28 \<le> c \<and> c \<le> 32) \<or> c = 133 \<or> c = 160 \<or> c = 5760 \<or>
     (8192 \<le> c \<and> c \<le> 8202) \<or> c = 8232 \<or> c = 8233 \<or> c = 8239 \<or> c = 8287 \<or> c = 12288"

text \<open>\<^verbatim>\<open>s.strip()\<close>\<close>

definition strip :: "ustr \<Rightarrow> ustr" where
  "strip s = rev (dropWhile isspace (rev (dropWhile isspace s)))"

text \<open>\<^verbatim>\<open>sub in s\<close>\<close>

fun contains :: "'a list \<Rightarrow> 'a list \<Rightarrow> bool" where
  "contains sub [] = (sub = [])"
| "contains sub (c # cs) = (prefix sub (c # cs) \<or> contains sub cs)"

text \<open>\<^verbatim>\<open>s.split(sep)\<close> for a separator that is not empty (the source only splits on
  literal markers): the pieces between the occurrences of \<open>sep\<close>, found left to right
  without overlap. \<open>acc\<close> holds the current piece, reversed.\<close>

function split_acc :: "'a list \<Rightarrow> 'a list \<Rightarrow> 'a list \<Rightarrow> 'a list list" where
  "split_acc sep acc [] = [rev acc]"
| "split_acc sep acc (c # cs) =
     (if sep \<noteq> [] \<and> prefix sep (c # cs)
      then rev acc # split_acc sep [] (drop (length sep) (c # cs))
      else split_acc sep (c # acc) cs)"
  by pat_completeness auto
termination
  by (relation "measure (\<lambda>(sep, acc, s). length s)") (auto simp: neq_Nil_conv)

definition split :: "'a list \<Rightarrow> 'a list \<Rightarrow> 'a list list" where
  "split s sep = split_acc sep [] s"

text \<open>\<^verbatim>\<open>sep.join(parts)\<close>\<close>

fun join :: "'a list \<Rightarrow> 'a list list \<Rightarrow> 'a list" where
  "join sep [] = []"
| "join sep [x] = x"
| "join sep (x # y # ys) = x @ sep @ join sep (y # ys)"

text \<open>\<^verbatim>\<open>str(n)\<close> for a natural number: its decimal digits.\<close>

fun str_of_nat :: "nat \<Rightarrow> ustr" where
  "str_of_nat n = (if n < 10 then [48 + n] else str_of_nat (n div 10) @ [48 + n mod 10])"

declare str_of_nat.simps [simp del]

section \<open>Document service: the RAG context\<close>

text \<open>
  A langchain \<^verbatim>\<open>Document\<close>: its \<^verbatim>\<open>page_content\<close> and, of its metadata, the only entry
  \<^verbatim>\<open>create_rag_context\<close> reads: \<^verbatim>\<open>metadata.get('source_file')\<close>, \<open>None\<close> when the key is
  absent.
\<close>

record document =
  page_content :: ustr
  source_file :: "ustr option"

text \<open>The marker appended to a truncated first document, ten code points.\<close>

definition truncation_marker :: ustr where
  "truncation_marker = str ''...['' @ [45236, 50857, 32, 49373, 47029] @ str '']''"

text \<open>The header of the document at index \<open>i\<close> (from 0), and its whole block:
  \<^verbatim>\<open>header + doc.page_content.strip()\<close>.\<close>

definition header :: "nat \<Rightarrow> document \<Rightarrow> ustr" where
  "header i doc =
     nl @ str ''[Document: '' @
     (case source_file doc of Some s \<Rightarrow> s | None \<Rightarrow> str ''Document '' @ str_of_nat (i + 1)) @
     str '']'' @ nl"

definition total_content :: "nat \<Rightarrow> document \<Rightarrow> ustr" where
  "total_content i doc = header i doc @ strip (page_content doc)"

text \<open>
  The \<^verbatim>\<open>for i, doc in enumerate(documents)\<close> loop of \<^verbatim>\<open>create_rag_context\<close>, from index
  \<open>i\<close> on, with the loop variables \<open>context_parts\<close> and \<open>current_length\<close>. The \<^verbatim>\<open>break\<close>
  is the branch that does not recurse.
\<close>

fun rag_loop :: "int \<Rightarrow> nat \<Rightarrow> ustr list \<Rightarrow> nat \<Rightarrow> document list \<Rightarrow> ustr list" where
  "rag_loop max_length i context_parts current_length [] = context_parts"
| "rag_loop max_length i context_parts current_length (doc # rest) =
     (if int current_length + int (length (total_content i doc)) > max_length then
        (if context_parts = [] then
           (let remaining_space = max_length - int (length (header i doc)) - 50 in
            if remaining_space > 100 then
              context_parts @
                [header i doc @ take (nat remaining_space) (strip (page_content doc)) @
                 truncation_marker]
            else context_parts)
         else context_parts)
      else rag_loop max_length (i + 1) (context_parts @ [total_content i doc])
             (current_length + length (total_content i doc)) rest)"

definition create_rag_context :: "document list \<Rightarrow> int \<Rightarrow> ustr" where
  "create_rag_context documents max_length =
     (if documents = [] then [] else join nl (rag_loop max_length 0 [] 0 documents))"

text \<open>The blocks of a document list, in order, numbered from \<open>i\<close>.\<close>

fun blocks_from :: "nat \<Rightarrow> document list \<Rightarrow> ustr list" where
  "blocks_from i [] = []"
| "blocks_from i (doc # rest) = total_content i doc # blocks_from (i + 1) rest"

definition blocks :: "document list \<Rightarrow> ustr list" where
  "blocks documents = blocks_from 0 documents"

text \<open>The total length of a list of blocks, as the loop counts it: the separators that
  \<^verbatim>\<open>join\<close> adds are not counted.\<close>

definition blocks_length :: "ustr list \<Rightarrow> nat" where
  "blocks_length bs = sum_list (map length bs)"

text \<open>The block as the specification words it, \<^verbatim>\<open>"[Document: <name>]\n<content>"\<close>, and
  the context as the concatenation of such blocks. Only used to compare with the code.\<close>

definition spec_block :: "document \<Rightarrow> ustr" where
  "spec_block doc =
     str ''[Document: '' @ the (source_file doc) @ str '']'' @ nl @ page_content doc"

definition spec_concatenation :: "document list \<Rightarrow> ustr" where
  "spec_concatenation documents = concat (map spec_block documents)"

section \<open>Session memory\<close>

text \<open>A langchain message: \<^verbatim>\<open>HumanMessage(content=...)\<close> or \<^verbatim>\<open>AIMessage(content=...)\<close>.\<close>

datatype message = HumanMessage ustr | AIMessage ustr

fun content :: "message \<Rightarrow> ustr" where
  "content (HumanMessage c) = c"
| "content (AIMessage c) = c"

text \<open>
  \<^verbatim>\<open>MemoryService\<close> keeps two dictionaries. The values of \<^verbatim>\<open>chat_histories\<close> are
  \<^verbatim>\<open>InMemoryChatMessageHistory\<close> objects that callers mutate through the reference they are
  handed, so the objects live in a store of their own, \<open>histories\<close>, and the dictionary
  holds references: a reference is an index into the store, and a new object is added at
  the end. The dictionary is an association list in insertion order, the order in which
  Python lists its keys. The document lists are kept by value.
\<close>

record memory_service =
  chat_histories :: "(ustr \<times> nat) list"
  histories :: "message list list"
  session_documents :: "ustr \<rightharpoonup> document list"

definition new_memory_service :: memory_service where
  "new_memory_service = \<lparr>chat_histories = [], histories = [], session_documents = Map.empty\<rparr>"

text \<open>The three operations of a history object the repository uses: \<^verbatim>\<open>h.messages\<close>,
  \<^verbatim>\<open>h.add_message(m)\<close> and \<^verbatim>\<open>h.clear()\<close>.\<close>

definition history_messages :: "memory_service \<Rightarrow> nat \<Rightarrow> message list" where
  "history_messages ms h = histories ms ! h"

definition add_message :: "memory_service \<Rightarrow> nat \<Rightarrow> message \<Rightarrow> memory_service" where
  "add_message ms h m = ms\<lparr>histories := (histories ms)[h := histories ms ! h @ [m]]\<rparr>"

definition clear :: "memory_service \<Rightarrow> nat \<Rightarrow> memory_service" where
  "clear ms h = ms\<lparr>histories := (histories ms)[h := []]\<rparr>"

definition get_session_history :: "memory_service \<Rightarrow> ustr \<Rightarrow> nat \<times> memory_service" where
  "get_session_history ms sid =
     (case map_of (chat_histories ms) sid of
        Some h \<Rightarrow> (h, ms)
      | None \<Rightarrow>
          (length (histories ms),
           ms\<lparr>chat_histories := chat_histories ms @ [(sid, length (histories ms))],
              histories := histories ms @ [[]]\<rparr>))"

definition clear_session_history :: "memory_service \<Rightarrow> ustr \<Rightarrow> bool \<times> memory_service" where
  "clear_session_history ms sid =
     (case map_of (chat_histories ms) sid of
        Some h \<Rightarrow> (True, clear ms h)
      | None \<Rightarrow> (False, ms))"

definition get_session_message_count :: "memory_service \<Rightarrow> ustr \<Rightarrow> nat" where
  "get_session_message_count ms sid =
     (case map_of (chat_histories ms) sid of
        Some h \<Rightarrow> length (history_messages ms h)
      | None \<Rightarrow> 0)"

definition list_active_sessions :: "memory_service \<Rightarrow> ustr list" where
  "list_active_sessions ms = map fst (chat_histories ms)"

definition add_session_documents ::
  "memory_service \<Rightarrow> ustr \<Rightarrow> document list \<Rightarrow> bool \<times> memory_service" where
  "add_session_documents ms sid documents =
     (True,
      ms\<lparr>session_documents :=
           (session_documents ms)
             (sid \<mapsto> (case session_documents ms sid of None \<Rightarrow> [] | Some ds \<Rightarrow> ds) @ documents)\<rparr>)"

definition get_session_documents :: "memory_service \<Rightarrow> ustr \<Rightarrow> document list" where
  "get_session_documents ms sid =
     (case session_documents ms sid of None \<Rightarrow> [] | Some ds \<Rightarrow> ds)"

definition clear_session_documents :: "memory_service \<Rightarrow> ustr \<Rightarrow> bool \<times> memory_service" where
  "clear_session_documents ms sid =
     (case session_documents ms sid of
        Some ds \<Rightarrow> (True, ms\<lparr>session_documents := (session_documents ms)(sid := None)\<rparr>)
      | None \<Rightarrow> (False, ms))"

definition get_session_document_count :: "memory_service \<Rightarrow> ustr \<Rightarrow> nat" where
  "get_session_document_count ms sid = length (get_session_documents ms sid)"

text \<open>Every reference held by the dictionary points into the store. It holds of a new
  service and every operation keeps it.\<close>

definition valid_references :: "memory_service \<Rightarrow> bool" where
  "valid_references ms \<longleftrightarrow> (\<forall>h \<in> snd ` set (chat_histories ms). h < length (histories ms))"

section \<open>Supervisor: data\<close>

text \<open>
  Exceptions, each with its message \<^verbatim>\<open>str(e)\<close>. \<open>ModelError\<close> stands for whatever
  exception a call of the language model raises. \<open>JSONDecodeError\<close> and pydantic's
  \<open>ValidationError\<close> are subclasses of \<open>ValueError\<close>. All of them are subclasses of
  \<open>Exception\<close>.
\<close>

datatype exn =
    ModelError ustr
  | JSONDecodeError ustr
  | ValidationError ustr
  | ValueError ustr
  | KeyError ustr
  | TypeError ustr
  | AttributeError ustr
  | ModuleNotFoundError ustr
  | NameError ustr

fun exn_str :: "exn \<Rightarrow> ustr" where
  "exn_str (ModelError m) = m"
| "exn_str (JSONDecodeError m) = m"
| "exn_str (ValidationError m) = m"
| "exn_str (ValueError m) = m"
| "exn_str (KeyError m) = m"
| "exn_str (TypeError m) = m"
| "exn_str (AttributeError m) = m"
| "exn_str (ModuleNotFoundError m) = m"
| "exn_str (NameError m) = m"

text \<open>\<^verbatim>\<open>class RequestType\<close>, the structured result of the classifier.\<close>

datatype category = Chat | Code

fun category_str :: "category \<Rightarrow> ustr" where
  "category_str Chat = str ''chat''"
| "category_str Code = str ''code''"

record classification =
  cls_type :: category
  cls_confidence :: rat
  cls_reasoning :: ustr

text \<open>\<^verbatim>\<open>class CodeOperation\<close> and \<^verbatim>\<open>class IncrementalCodeUpdate\<close> of the schemas; the
  fields \<^verbatim>\<open>operations\<close> and \<^verbatim>\<open>explanation\<close> of the latter are \<open>update_operations\<close> and
  \<open>update_explanation\<close> here.\<close>

record code_operation =
  operation :: ustr
  target :: ustr
  old_content :: "ustr option"
  new_content :: ustr
  line_start :: "int option"
  line_end :: "int option"

record incremental_code_update =
  update_type :: ustr
  update_operations :: "code_operation list"
  update_explanation :: ustr
  estimated_impact :: ustr

text \<open>
  The state of the graph is a dictionary. The keys that \<^verbatim>\<open>process_request\<close> returns and
  the endpoint copies into its response come first (\<open>payload\<close>); the dictionary that
  \<^verbatim>\<open>process_request\<close> returns adds \<open>messages\<close> and \<open>session_id\<close> (\<open>request_result\<close>); the
  state adds the editor context. \<open>enable_incremental_updates\<close> is \<open>None\<close> when the
  dictionary has no such key, and so are \<open>incremental_update\<close> and the three keys of the
  editor context. The keys \<^verbatim>\<open>conversation_messages\<close>, \<^verbatim>\<open>rag_context\<close> and
  \<^verbatim>\<open>session_documents\<close>, which the supervisor node writes, which the state of the graph does
  not declare and which no node reads, are left out.

  The messages of the state are message objects, as \<^verbatim>\<open>process_request\<close> builds them.
\<close>

record payload =
  request_type :: ustr
  confidence :: rat
  reasoning :: ustr
  response :: ustr
  generated_code :: ustr
  filename :: ustr
  language :: ustr
  incremental_update :: "incremental_code_update option"

record request_result = payload +
  messages :: "message list"
  session_id :: ustr

record supervisor_state = request_result +
  currentCode :: "ustr option"
  currentFilename :: "ustr option"
  currentLanguage :: "ustr option"
  enable_incremental_updates :: "bool option"

text \<open>\<^verbatim>\<open>class SupervisorResponse\<close>: the payload and the success flag.\<close>

record supervisor_response = payload +
  success :: bool

text \<open>\<^verbatim>\<open>class UserConfig\<close>, as far as \<^verbatim>\<open>_create_llm\<close> and the session id read it;
  \<open>azureOpenAIConfig\<close> says whether the optional Azure configuration is present.\<close>

datatype ai_provider = OpenAI | AzureOpenAI | Anthropic

record user_config =
  aiProvider :: ai_provider
  sessionId :: ustr
  openaiApiKey :: "ustr option"
  anthropicApiKey :: "ustr option"
  azureOpenAIConfig :: bool

text \<open>\<^verbatim>\<open>class SupervisorRequest\<close>.\<close>

record supervisor_request =
  prompt :: ustr
  config :: user_config
  req_session_id :: "ustr option"
  req_currentCode :: "ustr option"
  req_currentFilename :: "ustr option"
  req_currentLanguage :: "ustr option"
  req_enable_incremental_updates :: "bool option"

text \<open>
  What is sent to the language model. The fixed instruction text of a prompt is not
  represented, only the parts that are interpolated into it: for the classification the
  recent history and the request; for the chat the RAG context (if the session has
  documents), the number of documents, and the history ending with the request.
\<close>

datatype model_input =
    ClassificationPrompt "message list" ustr
  | ChatPrompt "ustr option" nat "message list"

text \<open>Values that \<^verbatim>\<open>json.loads\<close> returns. A float keeps its literal.\<close>

datatype json =
    JNull
  | JBool bool
  | JInt int
  | JFloat ustr
  | JStr ustr
  | JList "json list"
  | JDict "(ustr \<times> json) list"

text \<open>
  The collaborators outside the repository: the classifier
  (\<^verbatim>\<open>llm.with_structured_output(RequestType).invoke\<close>), the model (\<^verbatim>\<open>llm.invoke(...).content\<close>),
  \<^verbatim>\<open>json.loads\<close>, and pydantic's validation in the constructor \<^verbatim>\<open>CodeOperation(...)\<close>, given
  its six arguments in the order of the source. \<open>import_schemas\<close> is the outcome of the
  import statement at line 451 of the supervisor, \<open>Some e\<close> when it raises \<open>e\<close>.
  \<open>unicode_lower\<close> is \<^verbatim>\<open>str.lower\<close> of the interpreter, with its Unicode case mapping, which
  depends on the neighbours of a letter and may change the length of the text.
\<close>

record env =
  classify :: "model_input \<Rightarrow> exn + classification"
  llm_invoke :: "model_input \<Rightarrow> exn + ustr"
  json_loads :: "ustr \<Rightarrow> exn + json"
  import_schemas :: "exn option"
  validate_operation :: "json \<Rightarrow> json \<Rightarrow> json \<Rightarrow> json \<Rightarrow> json \<Rightarrow> json \<Rightarrow> exn + code_operation"
  unicode_lower :: "ustr \<Rightarrow> ustr"

text \<open>
  In this source tree the import raises: the supervisor is the module
  \<^verbatim>\<open>app.services.ai.supervisor\<close>, so \<^verbatim>\<open>from ..models.schemas import ...\<close> names
  \<^verbatim>\<open>app.services.models.schemas\<close>, and \<^verbatim>\<open>app/services\<close> has no \<^verbatim>\<open>models\<close> package (the schemas
  are \<^verbatim>\<open>app.models.schemas\<close>, which line 12 imports with three dots).
\<close>

definition source_tree_import :: "exn option" where
  "source_tree_import =
     Some (ModuleNotFoundError (str ''No module named '' @ [39] @ str ''app.services.models'' @ [39]))"

section \<open>Supervisor: small helpers\<close>

text \<open>\<^verbatim>\<open>x or default\<close> for an optional string: \<open>None\<close> and the empty string are false.\<close>

definition or_else :: "ustr option \<Rightarrow> ustr \<Rightarrow> ustr" where
  "or_else x d = (case x of None \<Rightarrow> d | Some s \<Rightarrow> if s = [] then d else s)"

text \<open>\<^verbatim>\<open>xs[-30:] if len(xs) > 30 else xs\<close>\<close>

definition recent :: "'a list \<Rightarrow> 'a list" where
  "recent xs = (if length xs > 30 then drop (length xs - 30) xs else xs)"

text \<open>\<^verbatim>\<open>s.lower()\<close>. On text of ASCII code points only it maps the letters \<open>A\<close> to \<open>Z\<close> to
  \<open>a\<close> to \<open>z\<close> and leaves the rest; on any other text it is the case mapping of the
  interpreter.\<close>

definition lower :: "env \<Rightarrow> ustr \<Rightarrow> ustr" where
  "lower env s =
     (if list_all (\<lambda>c. c < 128) s
      then map (\<lambda>c. if 65 \<le> c \<and> c \<le> 90 then c + 32 else c) s
      else unicode_lower env s)"

definition EXPLANATION :: ustr where "EXPLANATION = str ''EXPLANATION:''"
definition CODE :: ustr where "CODE = str ''CODE:''"
definition FILENAME :: ustr where "FILENAME = str ''FILENAME:''"
definition LANGUAGE :: ustr where "LANGUAGE = str ''LANGUAGE:''"
definition INCREMENTAL_OPERATIONS :: ustr where
  "INCREMENTAL_OPERATIONS = str ''INCREMENTAL_OPERATIONS:''"

text \<open>\<open>Generated code based on your request\<close>, the explanation used when no code was
  found.\<close>

definition generic_explanation :: ustr where
  "generic_explanation = str ''Generated code based on your request''"

section \<open>Code agent: parsing the reply\<close>

text \<open>
  \<^verbatim>\<open>re.search(r'INCREMENTAL_OPERATIONS:\s*(\[.*?\])', response_text, re.DOTALL)\<close>, group 1.
  A match at the start of \<open>s\<close> is the marker, then all the white space that follows
  (what follows the white space must be the bracket, so giving some back never helps),
  then an opening bracket, then, as the quantifier is lazy and the dot matches every code
  point, everything up to the first closing bracket. The search returns the match at the
  leftmost position that has one.
\<close>

definition match_operations_here :: "ustr \<Rightarrow> ustr option" where
  "match_operations_here s =
     (if prefix INCREMENTAL_OPERATIONS s then
        (case dropWhile isspace (drop (length INCREMENTAL_OPERATIONS) s) of
           [] \<Rightarrow> None
         | c # cs \<Rightarrow>
             if c = 91 \<and> 93 \<in> set cs
             then Some (c # takeWhile (\<lambda>x. x \<noteq> 93) cs @ [93])
             else None)
      else None)"

fun search_operations :: "ustr \<Rightarrow> ustr option" where
  "search_operations [] = None"
| "search_operations (c # cs) =
     (case match_operations_here (c # cs) of
        Some g \<Rightarrow> Some g
      | None \<Rightarrow> search_operations cs)"

text \<open>The name of the Python type of a decoded value, for the messages of exceptions.\<close>

fun type_name :: "json \<Rightarrow> ustr" where
  "type_name JNull = str ''NoneType''"
| "type_name (JBool b) = str ''bool''"
| "type_name (JInt i) = str ''int''"
| "type_name (JFloat f) = str ''float''"
| "type_name (JStr s) = str ''str''"
| "type_name (JList xs) = str ''list''"
| "type_name (JDict kvs) = str ''dict''"

text \<open>\<^verbatim>\<open>for op in operations_data\<close>: the elements of a list, the keys of a dictionary, the
  characters of a string; other values are not iterable.\<close>

fun iterate :: "json \<Rightarrow> exn + json list" where
  "iterate (JList xs) = Inr xs"
| "iterate (JDict kvs) = Inr (map (\<lambda>kv. JStr (fst kv)) kvs)"
| "iterate (JStr s) = Inr (map (\<lambda>c. JStr [c]) s)"
| "iterate v = Inl (TypeError ([39] @ type_name v @ [39] @ str '' object is not iterable''))"

text \<open>\<^verbatim>\<open>op.get(key, default)\<close> on a dictionary.\<close>

definition dict_get :: "(ustr \<times> json) list \<Rightarrow> ustr \<Rightarrow> json \<Rightarrow> json" where
  "dict_get kvs k d = (case map_of kvs k of Some v \<Rightarrow> v | None \<Rightarrow> d)"

text \<open>One element of the list comprehension at lines 452 to 462. Only a dictionary has
  \<^verbatim>\<open>get\<close>.\<close>

fun make_operation :: "env \<Rightarrow> json \<Rightarrow> exn + code_operation" where
  "make_operation env (JDict kvs) =
     validate_operation env
       (dict_get kvs (str ''operation'') (JStr (str ''replace'')))
       (dict_get kvs (str ''target'') (JStr []))
       (dict_get kvs (str ''old_content'') JNull)
       (dict_get kvs (str ''new_content'') (JStr []))
       (dict_get kvs (str ''line_start'') JNull)
       (dict_get kvs (str ''line_end'') JNull)"
| "make_operation env v =
     Inl (AttributeError
            ([39] @ type_name v @ [39] @ str '' object has no attribute '' @ [39] @ str ''get'' @ [39]))"

fun make_operations :: "env \<Rightarrow> json list \<Rightarrow> exn + code_operation list" where
  "make_operations env [] = Inr []"
| "make_operations env (v # vs) =
     (case make_operation env v of
        Inl e \<Rightarrow> Inl e
      | Inr op \<Rightarrow>
          (case make_operations env vs of
             Inl e \<Rightarrow> Inl e
           | Inr ops \<Rightarrow> Inr (op # ops)))"

text \<open>Lines 439 to 442: the explanation of an incremental reply, the text between the
  first \<open>EXPLANATION:\<close> and the next \<open>INCREMENTAL_OPERATIONS:\<close>. \<open>explanation\<close> is the value
  the variable has before.\<close>

definition incremental_explanation :: "ustr \<Rightarrow> ustr \<Rightarrow> ustr" where
  "incremental_explanation explanation response_text =
     (if contains EXPLANATION response_text then
        (let explanation_part = split response_text EXPLANATION ! 1 in
         if contains INCREMENTAL_OPERATIONS explanation_part
         then strip (split explanation_part INCREMENTAL_OPERATIONS ! 0)
         else explanation)
      else explanation)"

text \<open>Lines 445 to 469, the rest of the inner \<^verbatim>\<open>try\<close> block: the value of
  \<open>incremental_update\<close> after it, or the exception it raises.\<close>

definition parse_operations ::
  "env \<Rightarrow> ustr \<Rightarrow> ustr \<Rightarrow> exn + incremental_code_update option" where
  "parse_operations env explanation response_text =
     (case search_operations response_text of
        None \<Rightarrow> Inr None
      | Some operations_json \<Rightarrow>
          (case json_loads env operations_json of
             Inl e \<Rightarrow> Inl e
           | Inr operations_data \<Rightarrow>
               (case import_schemas env of
                  Some e \<Rightarrow> Inl e
                | None \<Rightarrow>
                    (case iterate operations_data of
                       Inl e \<Rightarrow> Inl e
                     | Inr elements \<Rightarrow>
                         (case make_operations env elements of
                            Inl e \<Rightarrow> Inl e
                          | Inr ops \<Rightarrow>
                              Inr (Some \<lparr>update_type = str ''incremental'',
                                         update_operations = ops,
                                         update_explanation = explanation,
                                         estimated_impact = str ''medium''\<rparr>))))))"

text \<open>\<^verbatim>\<open>except (json.JSONDecodeError, KeyError, ValueError)\<close>: the classes the inner handler
  catches.\<close>

fun caught :: "exn \<Rightarrow> bool" where
  "caught (JSONDecodeError m) = True"
| "caught (ValidationError m) = True"
| "caught (ValueError m) = True"
| "caught (KeyError m) = True"
| "caught e = False"

text \<open>The local variables that the parsing of a reply sets.\<close>

record parsed =
  p_code :: ustr
  p_explanation :: ustr
  p_filename :: ustr
  p_language :: ustr
  p_incremental_update :: "incremental_code_update option"

text \<open>Lines 478 to 493: code, file name and language from the text after \<open>CODE:\<close>, given the
  values the three variables have before.\<close>

definition split_code ::
  "env \<Rightarrow> ustr \<Rightarrow> ustr \<Rightarrow> ustr \<Rightarrow> ustr \<Rightarrow> ustr \<times> ustr \<times> ustr" where
  "split_code env response_text code0 filename0 language0 =
     (if contains CODE response_text then
        (let parts = split response_text CODE in
         if length parts > 1 then
           (let code = strip (parts ! 1) in
            if contains FILENAME code then
              (let code_parts = split code FILENAME;
                   code' = strip (code_parts ! 0) in
               if length code_parts > 1 then
                 (let filename_part = strip (code_parts ! 1) in
                  if contains LANGUAGE filename_part then
                    (let filename_lang_parts = split filename_part LANGUAGE;
                         filename = strip (filename_lang_parts ! 0) in
                     if length filename_lang_parts > 1
                     then (code', filename, lower env (strip (filename_lang_parts ! 1)))
                     else (code', filename, language0))
                  else (code', filename_part, language0))
               else (code', filename0, language0))
            else (code, filename0, language0))
         else (code0, filename0, language0))
      else (code0, filename0, language0))"

text \<open>Lines 495 to 500.\<close>

definition split_explanation :: "ustr \<Rightarrow> ustr \<Rightarrow> ustr" where
  "split_explanation response_text explanation0 =
     (if contains EXPLANATION response_text then
        (let explanation_part = split response_text EXPLANATION ! 1 in
         if contains CODE explanation_part
         then strip (split explanation_part CODE ! 0)
         else strip explanation_part)
      else explanation0)"

text \<open>Lines 477 to 505, the standard parsing, entered when \<open>incremental_update\<close> is
  \<open>None\<close>; \<open>explanation0\<close>, \<open>filename0\<close> and \<open>language0\<close> are the values of the variables
  on entry, and the code is empty on entry.\<close>

definition full_generation_parsing ::
  "env \<Rightarrow> ustr \<Rightarrow> ustr \<Rightarrow> ustr \<Rightarrow> ustr \<Rightarrow> parsed" where
  "full_generation_parsing env response_text explanation0 filename0 language0 =
     (case split_code env response_text [] filename0 language0 of
        (code, filename', language') \<Rightarrow>
          (let explanation = split_explanation response_text explanation0 in
           if code = []
           then \<lparr>p_code = response_text, p_explanation = generic_explanation,
                 p_filename = filename', p_language = language', p_incremental_update = None\<rparr>
           else \<lparr>p_code = code, p_explanation = explanation,
                 p_filename = filename', p_language = language', p_incremental_update = None\<rparr>))"

text \<open>
  Lines 425 to 505: the parsing of the reply. An exception of the inner \<^verbatim>\<open>try\<close> block
  that its handler does not catch leaves the parsing (\<open>Inl\<close>) for the handler of the
  outer block.
\<close>

definition parse_response ::
  "env \<Rightarrow> bool \<Rightarrow> ustr option \<Rightarrow> ustr option \<Rightarrow> ustr \<Rightarrow> exn + parsed" where
  "parse_response env has_existing_code current_filename current_language response_text =
     (let filename = or_else current_filename (str ''index.html'');
          language = or_else current_language (str ''html'')
      in
      if contains INCREMENTAL_OPERATIONS response_text \<and> has_existing_code then
        (let explanation = incremental_explanation [] response_text in
         case parse_operations env explanation response_text of
           Inr (Some upd) \<Rightarrow>
             Inr \<lparr>p_code = [], p_explanation = explanation, p_filename = filename,
                  p_language = language, p_incremental_update = Some upd\<rparr>
         | Inr None \<Rightarrow>
             Inr (full_generation_parsing env response_text explanation filename language)
         | Inl e \<Rightarrow>
             if caught e
             then Inr (full_generation_parsing env response_text explanation filename language)
             else Inl e)
      else Inr (full_generation_parsing env response_text [] filename language))"

section \<open>Supervisor: the nodes of the graph\<close>

text \<open>Where a node sends the request next: \<^verbatim>\<open>Command(goto=...)\<close>.\<close>

datatype goto = ToChatAgent | ToCodeAgent | ToEND

text \<open>The Korean texts of the source: the prefixes of the error messages of the chat agent,
  of the code agent, of the session log entry and of the response of the orchestrator, and
  the parts of the code agent's log entry and reply.\<close>

definition chat_error_prefix :: ustr where
  "chat_error_prefix =
     [51396, 49569, 54633, 45768, 45796, 46, 32, 50724, 47448, 44032, 32, 48156, 49373,
      54664, 49845, 45768, 45796, 58, 32]"

definition code_error_prefix :: ustr where
  "code_error_prefix =
     [53076, 46300, 32, 49373, 49457, 32, 51473, 32, 50724, 47448, 44032, 32, 48156, 49373,
      54664, 49845, 45768, 45796, 58, 32]"

definition log_error_prefix :: ustr where
  "log_error_prefix = [50724, 47448, 32, 48156, 49373, 58, 32]"

definition request_error_prefix :: ustr where
  "request_error_prefix =
     [51396, 49569, 54633, 45768, 45796, 46, 32, 50836, 52397, 32, 52376, 47532, 32, 51473,
      32, 50724, 47448, 44032, 32, 48156, 49373, 54664, 49845, 45768, 45796, 58, 32]"

definition generated_code_label :: ustr where
  "generated_code_label = [49373, 49457, 46108, 32, 53076, 46300]"

definition code_update_label :: ustr where
  "code_update_label = [53076, 46300, 32, 50629, 45936, 51060, 53944]"

definition shown_in_editor :: ustr where
  "shown_in_editor =
     [44032, 32, 50724, 47480, 51901, 32, 50640, 46356, 53552, 50640, 32, 54364, 49884,
      46121, 45768, 45796, 46]"

definition no_message :: ustr where
  "no_message = str ''No message to process''"

text \<open>
  \<^verbatim>\<open>supervisor_node\<close>. The session history is fetched (and created if the session is new)
  before the classifier is called; \<open>classification_prompt\<close> is what the classifier is
  called with. The RAG context that the node also computes goes only into the update key
  \<^verbatim>\<open>rag_context\<close>. A classifier that raises sends the request to the chat agent with the
  default classification.
\<close>

definition classification_prompt :: "memory_service \<Rightarrow> supervisor_state \<Rightarrow> model_input" where
  "classification_prompt ms state =
     (let (session_history, ms1) = get_session_history ms (session_id state) in
      ClassificationPrompt (recent (history_messages ms1 session_history))
        (content (last (messages state))))"

definition supervisor_node ::
  "env \<Rightarrow> memory_service \<Rightarrow> supervisor_state \<Rightarrow> (exn + goto \<times> supervisor_state) \<times> memory_service"
  where
  "supervisor_node env ms state =
     (if messages state = [] then (Inr (ToEND, state\<lparr>response := no_message\<rparr>), ms)
      else
        (let ms1 = snd (get_session_history ms (session_id state)) in
         case classify env (classification_prompt ms state) of
           Inr result \<Rightarrow>
             if cls_type result = Code then
               (Inr (ToCodeAgent,
                     state\<lparr>request_type := category_str (cls_type result),
                           confidence := cls_confidence result,
                           reasoning := cls_reasoning result\<rparr>), ms1)
             else
               (Inr (ToChatAgent,
                     state\<lparr>request_type := category_str (cls_type result),
                           confidence := cls_confidence result,
                           reasoning := cls_reasoning result\<rparr>), ms1)
         | Inl e \<Rightarrow>
             (Inr (ToChatAgent,
                   state\<lparr>request_type := str ''chat'',
                         confidence := 1 / 2,
                         reasoning := str ''Classification failed: '' @ exn_str e\<rparr>), ms1)))"

text \<open>\<^verbatim>\<open>chat_agent\<close>\<close>

definition chat_agent ::
  "env \<Rightarrow> memory_service \<Rightarrow> supervisor_state \<Rightarrow> (exn + supervisor_state) \<times> memory_service"
  where
  "chat_agent env ms state =
     (if messages state = [] then (Inr (state\<lparr>response := no_message\<rparr>), ms)
      else
        (let content' = content (last (messages state));
             (session_history, ms1) = get_session_history ms (session_id state);
             documents = get_session_documents ms1 (session_id state);
             current_user_message = HumanMessage content';
             conversation_messages =
               recent (history_messages ms1 session_history) @ [current_user_message];
             document_context =
               (if documents = [] then None else Some (create_rag_context documents 2000))
         in
         case llm_invoke env
                (ChatPrompt document_context (length documents) conversation_messages) of
           Inr reply \<Rightarrow>
             (Inr (state\<lparr>response := reply,
                         messages := messages state @ [AIMessage reply]\<rparr>),
              add_message (add_message ms1 session_history current_user_message)
                session_history (AIMessage reply))
         | Inl e \<Rightarrow>
             (let error_message = chat_error_prefix @ exn_str e in
              (Inr (state\<lparr>response := error_message,
                          messages := messages state @ [AIMessage error_message]\<rparr>),
               add_message (add_message ms1 session_history current_user_message)
                 session_history (AIMessage error_message)))))"

text \<open>Lines 345 to 348 of \<^verbatim>\<open>code_agent\<close>: the mode. A state without the key
  \<^verbatim>\<open>enable_incremental_updates\<close> gives the default \<open>True\<close>.\<close>

datatype mode = Incremental | FullGeneration

definition has_existing_code :: "supervisor_state \<Rightarrow> bool" where
  "has_existing_code state =
     (case currentCode state of None \<Rightarrow> False | Some c \<Rightarrow> c \<noteq> [] \<and> strip c \<noteq> [])"

definition enable_incremental :: "supervisor_state \<Rightarrow> bool" where
  "enable_incremental state =
     (case enable_incremental_updates state of None \<Rightarrow> True | Some b \<Rightarrow> b)"

definition select_mode :: "supervisor_state \<Rightarrow> mode" where
  "select_mode state =
     (if enable_incremental state \<and> has_existing_code state then Incremental
      else FullGeneration)"

text \<open>
  Lines 350 to 418: the prompt of the code agent, an f-string in either mode, built before
  the \<^verbatim>\<open>try\<close> block of line 420.

  In incremental mode the text of the f-string shows a JSON object in single braces (lines
  367 to 374). In an f-string this is a replacement field: the expression \<^verbatim>\<open>"operation"\<close>
  and, after the colon, the rest up to the closing brace as its format specification, which
  formatting a string rejects with \<open>ValueError\<close> when the prompt is built.

  In full generation mode the first replacement field is \<^verbatim>\<open>{rag_context}\<close> (line 393).
  \<^verbatim>\<open>rag_context\<close> is a local variable of \<^verbatim>\<open>supervisor_node\<close>; \<^verbatim>\<open>code_agent\<close> never assigns it
  and the module has no global of that name, so evaluating it raises \<open>NameError\<close>.

  \<open>operations_format_spec\<close> is that format specification, the text of lines 367 to 374
  after the colon, and \<open>invalid_format_specifier\<close> the message of the \<open>ValueError\<close>, as
  Python 3.11 words it (older interpreters stop after the first three words).
\<close>

definition dq :: "ustr \<Rightarrow> ustr" where
  "dq s = [34] @ s @ [34]"

definition operations_format_spec :: ustr where
  "operations_format_spec =
     str '' '' @ dq (str ''replace|insert|delete|append|prepend'') @ str '','' @ nl @
     replicate 20 32 @ dq (str ''target'') @ str '': '' @
       dq (str ''line_number|function_name|css_selector'') @ str '','' @ nl @
     replicate 20 32 @ dq (str ''old_content'') @ str '': '' @
       dq (str ''content to replace (if replace operation)'') @ str '','' @ nl @
     replicate 20 32 @ dq (str ''new_content'') @ str '': '' @
       dq (str ''new content to insert'') @ str '','' @ nl @
     replicate 20 32 @ dq (str ''line_start'') @ str '': number,'' @ nl @
     replicate 20 32 @ dq (str ''line_end'') @ str '': number'' @ nl @
     replicate 18 32"

definition invalid_format_specifier :: ustr where
  "invalid_format_specifier =
     str ''Invalid format specifier '' @ [39] @ operations_format_spec @ [39] @
     str '' for object of type '' @ [39] @ str ''str'' @ [39]"

definition code_prompt :: "supervisor_state \<Rightarrow> exn + model_input" where
  "code_prompt state =
     (case select_mode state of
        Incremental \<Rightarrow> Inl (ValueError invalid_format_specifier)
      | FullGeneration \<Rightarrow>
          Inl (NameError (str ''name '' @ [39] @ str ''rag_context'' @ [39] @ str '' is not defined'')))"

text \<open>
  \<^verbatim>\<open>code_agent\<close>. The session history is fetched first, then the prompt is built; an
  exception there leaves the node. The \<^verbatim>\<open>try\<close> block calls the model and parses the
  reply; its handler turns every exception into an error reply.
\<close>

definition code_agent ::
  "env \<Rightarrow> memory_service \<Rightarrow> supervisor_state \<Rightarrow> (exn + supervisor_state) \<times> memory_service"
  where
  "code_agent env ms state =
     (if messages state = [] then (Inr (state\<lparr>response := no_message\<rparr>), ms)
      else
        (let content' = content (last (messages state));
             (session_history, ms1) = get_session_history ms (session_id state);
             failed = (\<lambda>e.
               (let error_message = code_error_prefix @ exn_str e in
                (Inr (state\<lparr>response := error_message,
                            messages := messages state @ [AIMessage error_message]\<rparr>),
                 add_message (add_message ms1 session_history (HumanMessage content'))
                   session_history (AIMessage error_message))))
         in
         case code_prompt state of
           Inl e \<Rightarrow> (Inl e, ms1)
         | Inr code_prompt' \<Rightarrow>
             (case llm_invoke env code_prompt' of
                Inl e \<Rightarrow> failed e
              | Inr response_text \<Rightarrow>
                  (case parse_response env (has_existing_code state) (currentFilename state)
                          (currentLanguage state) response_text of
                     Inl e \<Rightarrow> failed e
                   | Inr p \<Rightarrow>
                       (Inr (state\<lparr>response := p_explanation p,
                                   generated_code := p_code p,
                                   filename := p_filename p,
                                   language := p_language p,
                                   incremental_update := p_incremental_update p,
                                   messages := messages state @
                                     [AIMessage (p_explanation p @ nl @ nl @
                                        (if p_incremental_update p \<noteq> None
                                         then code_update_label else generated_code_label) @
                                        shown_in_editor)]\<rparr>),
                        add_message
                          (add_message ms1 session_history (HumanMessage content'))
                          session_history
                          (AIMessage (p_explanation p @ nl @ nl @ generated_code_label @
                             str '': '' @ p_filename p @ str '' ('' @ p_language p @
                             str '')'')))))))"

text \<open>
  The graph is compiled from \<^verbatim>\<open>StateGraph(SupervisorState)\<close> (line 551), and
  \<^verbatim>\<open>SupervisorState\<close> (lines 30 to 39) declares the keys \<^verbatim>\<open>messages\<close>, \<^verbatim>\<open>request_type\<close>,
  \<^verbatim>\<open>confidence\<close>, \<^verbatim>\<open>reasoning\<close>, \<^verbatim>\<open>response\<close>, \<^verbatim>\<open>generated_code\<close>, \<^verbatim>\<open>filename\<close>, \<^verbatim>\<open>language\<close> and
  \<^verbatim>\<open>session_id\<close>. The graph library, which is not part of the repository, keeps a state of
  the declared keys only: of the dictionary given to \<^verbatim>\<open>invoke\<close> and of the update of a node
  it drops every other key. So \<^verbatim>\<open>currentCode\<close>, \<^verbatim>\<open>currentFilename\<close> and \<^verbatim>\<open>currentLanguage\<close> of the
  initial state do not reach a node, and \<^verbatim>\<open>incremental_update\<close> of the code agent's update
  does not reach the result. \<open>declared_keys\<close> is a dictionary without the undeclared keys.
\<close>

definition declared_keys :: "supervisor_state \<Rightarrow> supervisor_state" where
  "declared_keys state =
     state\<lparr>incremental_update := None,
           currentCode := None,
           currentFilename := None,
           currentLanguage := None,
           enable_incremental_updates := None\<rparr>"

text \<open>The state after a node: the update of the node merged into the declared keys.\<close>

definition merge_update ::
  "(exn + supervisor_state) \<times> memory_service \<Rightarrow> (exn + supervisor_state) \<times> memory_service"
  where
  "merge_update r =
     (case r of
        (Inl e, ms1) \<Rightarrow> (Inl e, ms1)
      | (Inr state1, ms1) \<Rightarrow> (Inr (declared_keys state1), ms1))"

text \<open>The compiled graph: the supervisor node, then the node it names, then the end.\<close>

definition graph_invoke ::
  "env \<Rightarrow> memory_service \<Rightarrow> supervisor_state \<Rightarrow> (exn + supervisor_state) \<times> memory_service"
  where
  "graph_invoke env ms state =
     (case supervisor_node env ms (declared_keys state) of
        (Inl e, ms1) \<Rightarrow> (Inl e, ms1)
      | (Inr (ToEND, state1), ms1) \<Rightarrow> (Inr (declared_keys state1), ms1)
      | (Inr (ToChatAgent, state1), ms1) \<Rightarrow>
          merge_update (chat_agent env ms1 (declared_keys state1))
      | (Inr (ToCodeAgent, state1), ms1) \<Rightarrow>
          merge_update (code_agent env ms1 (declared_keys state1)))"

section \<open>Supervisor: the request\<close>

text \<open>\<^verbatim>\<open>_create_llm\<close>: whether the configuration names a provider with its credentials.
  The model object itself is the collaborator of the environment.\<close>

definition create_llm :: "user_config \<Rightarrow> exn + unit" where
  "create_llm c =
     (if aiProvider c = AzureOpenAI \<and> azureOpenAIConfig c then Inr ()
      else if aiProvider c = OpenAI \<and> or_else (openaiApiKey c) [] \<noteq> [] then Inr ()
      else if aiProvider c = Anthropic \<and> or_else (anthropicApiKey c) [] \<noteq> [] then Inr ()
      else Inl (ValueError (str ''Invalid AI provider configuration'')))"

text \<open>\<^verbatim>\<open>getattr(request, 'session_id', None) or getattr(request.config, 'sessionId', None)
  or 'default'\<close>\<close>

definition request_session_id :: "supervisor_request \<Rightarrow> ustr" where
  "request_session_id request =
     or_else (req_session_id request)
       (or_else (Some (sessionId (config request))) (str ''default''))"

text \<open>Lines 575 to 588: the dictionary given to the graph. It has no key
  \<^verbatim>\<open>enable_incremental_updates\<close> and no key \<^verbatim>\<open>incremental_update\<close>.\<close>

definition initial_state :: "supervisor_request \<Rightarrow> supervisor_state" where
  "initial_state request =
     \<lparr>request_type = str ''unknown'',
      confidence = 0,
      reasoning = [],
      response = [],
      generated_code = [],
      filename = str ''index.html'',
      language = str ''html'',
      incremental_update = None,
      messages = [HumanMessage (prompt request)],
      session_id = request_session_id request,
      currentCode = req_currentCode request,
      currentFilename = req_currentFilename request,
      currentLanguage = req_currentLanguage request,
      enable_incremental_updates = None\<rparr>"

text \<open>
  \<^verbatim>\<open>Supervisor.process_request\<close> on a new \<^verbatim>\<open>Supervisor\<close>, as the endpoint calls it: the graph
  is created first, outside the \<^verbatim>\<open>try\<close> block, so an invalid configuration raises; an
  exception of the traversal is caught, written to the session log and returned as an
  error dictionary.
\<close>

definition process_request ::
  "env \<Rightarrow> memory_service \<Rightarrow> supervisor_request \<Rightarrow> (exn + request_result) \<times> memory_service"
  where
  "process_request env ms request =
     (case create_llm (config request) of
        Inl e \<Rightarrow> (Inl e, ms)
      | Inr u \<Rightarrow>
          (case graph_invoke env ms (initial_state request) of
             (Inr result, ms1) \<Rightarrow>
               (Inr \<lparr>request_type = request_type result,
                     confidence = confidence result,
                     reasoning = reasoning result,
                     response = response result,
                     generated_code = generated_code result,
                     filename = filename result,
                     language = language result,
                     incremental_update = incremental_update result,
                     messages = messages result,
                     session_id = request_session_id request\<rparr>, ms1)
           | (Inl e, ms1) \<Rightarrow>
               (let (session_history, ms2) = get_session_history ms1 (request_session_id request);
                    ms3 = add_message ms2 session_history (HumanMessage (prompt request));
                    ms4 = add_message ms3 session_history
                            (AIMessage (log_error_prefix @ exn_str e))
                in
                (Inr \<lparr>request_type = str ''error'',
                      confidence = 0,
                      reasoning = str ''Processing error: '' @ exn_str e,
                      response = request_error_prefix @ exn_str e,
                      generated_code = [],
                      filename = str ''index.html'',
                      language = str ''html'',
                      incremental_update = None,
                      messages = [HumanMessage (prompt request)],
                      session_id = request_session_id request\<rparr>, ms4))))"

text \<open>
  The endpoint \<^verbatim>\<open>supervisor_routing\<close>: the dictionary that \<^verbatim>\<open>process_request\<close> returns becomes
  a response with \<^verbatim>\<open>success=True\<close> (\<^verbatim>\<open>incremental_update\<close> is not copied); an exception
  becomes an error response with \<^verbatim>\<open>success=False\<close>.
\<close>

definition supervisor_routing ::
  "env \<Rightarrow> memory_service \<Rightarrow> supervisor_request \<Rightarrow> supervisor_response \<times> memory_service"
  where
  "supervisor_routing env ms request =
     (case process_request env ms request of
        (Inr result, ms1) \<Rightarrow>
          (\<lparr>request_type = request_type result,
            confidence = confidence result,
            reasoning = reasoning result,
            response = response result,
            generated_code = generated_code result,
            filename = filename result,
            language = language result,
            incremental_update = None,
            success = True\<rparr>, ms1)
      | (Inl e, ms1) \<Rightarrow>
          (\<lparr>request_type = str ''error'',
            confidence = 0,
            reasoning = str ''Processing error: '' @ exn_str e,
            response = request_error_prefix @ exn_str e,
            generated_code = [],
            filename = str ''index.html'',
            language = str ''html'',
            incremental_update = None,
            success = False\<rparr>, ms1))"

section \<open>Example values\<close>

text \<open>A document of 200 letters \<open>x\<close> from the file \<open>a\<close>; a document of one letter; and two
  short documents, the first with white space around its content, the second without a
  \<^verbatim>\<open>source_file\<close> entry.\<close>

definition long_document :: document where
  "long_document = \<lparr>page_content = replicate 200 120, source_file = Some (str ''a'')\<rparr>"

definition doc_x :: document where
  "doc_x = \<lparr>page_content = str ''x'', source_file = Some (str ''a'')\<rparr>"

definition doc_a :: document where
  "doc_a = \<lparr>page_content = str '' x '', source_file = Some (str ''a'')\<rparr>"

definition doc_b :: document where
  "doc_b = \<lparr>page_content = str ''yy'', source_file = None\<rparr>"

text \<open>A store with the one session \<open>s1\<close>, holding one message.\<close>

definition one_session :: memory_service where
  "one_session =
     add_message (snd (get_session_history new_memory_service (str ''s1''))) 0
       (HumanMessage (str ''hi''))"

text \<open>A configuration that \<^verbatim>\<open>_create_llm\<close> accepts.\<close>

definition valid_config :: user_config where
  "valid_config =
     \<lparr>aiProvider = OpenAI, sessionId = str ''default'', openaiApiKey = Some (str ''key''),
      anthropicApiKey = None, azureOpenAIConfig = False\<rparr>"

text \<open>
  Environments for the examples. In \<open>code_env\<close> the classifier answers \<open>code\<close>, the model
  answers \<open>hello\<close>, the JSON decoder rejects its input (it is only given malformed text),
  the import is that of the source tree and the case mapping outside ASCII is not used (the
  examples are ASCII text). \<open>array_env\<close> differs in the decoder, which
  decodes the text \<open>[1]\<close> to the list \<open>[1]\<close> as \<^verbatim>\<open>json.loads\<close> does. In \<open>failing_env\<close> every
  call of the model raises.
\<close>

definition code_env :: env where
  "code_env =
     \<lparr>classify = (\<lambda>p. Inr \<lparr>cls_type = Code, cls_confidence = 9 / 10,
                               cls_reasoning = str ''asks for code''\<rparr>),
      llm_invoke = (\<lambda>p. Inr (str ''hello'')),
      json_loads = (\<lambda>s. Inl (JSONDecodeError (str ''Expecting value''))),
      import_schemas = source_tree_import,
      validate_operation = (\<lambda>a b c d e f. Inl (ValidationError (str ''validation error''))),
      unicode_lower = (\<lambda>s. s)\<rparr>"

definition array_env :: env where
  "array_env =
     code_env\<lparr>json_loads :=
       (\<lambda>s. if s = str ''[1]'' then Inr (JList [JInt 1])
            else Inl (JSONDecodeError (str ''Expecting value'')))\<rparr>"

definition failing_env :: env where
  "failing_env =
     code_env\<lparr>classify := (\<lambda>p. Inl (ModelError (str ''connection refused''))),
              llm_invoke := (\<lambda>p. Inl (ModelError (str ''connection refused'')))\<rparr>"

text \<open>A request to change existing editor code with incremental updates switched on, and
  a request without editor code.\<close>

definition flag_on_request :: supervisor_request where
  "flag_on_request =
     \<lparr>prompt = str ''make the title blue'', config = valid_config,
      req_session_id = Some (str ''s1''), req_currentCode = Some (str ''<p>hi</p>''),
      req_currentFilename = None, req_currentLanguage = None,
      req_enable_incremental_updates = Some True\<rparr>"

definition new_page_request :: supervisor_request where
  "new_page_request =
     \<lparr>prompt = str ''build my CV page'', config = valid_config,
      req_session_id = Some (str ''s1''), req_currentCode = None,
      req_currentFilename = None, req_currentLanguage = None,
      req_enable_incremental_updates = None\<rparr>"

text \<open>Replies of the model: the full generation reply of the specification, an incremental
  reply with a malformed array, and one whose array is well formed but holds a number.\<close>

definition example_reply :: ustr where
  "example_reply =
     str ''EXPLANATION: fixes bug'' @ nl @ str ''CODE:'' @ nl @ str ''<p>hi</p>'' @ nl @
     str ''FILENAME: index.html'' @ nl @ str ''LANGUAGE: html''"

definition malformed_reply :: ustr where
  "malformed_reply =
     str ''EXPLANATION: new title'' @ nl @ str ''INCREMENTAL_OPERATIONS:'' @ nl @
     str ''[{oops]''"

definition array_reply :: ustr where
  "array_reply =
     str ''EXPLANATION: new title'' @ nl @ str ''INCREMENTAL_OPERATIONS: [1]''"

section \<open>Properties of the RAG context\<close>

lemma length_truncation_marker: "length truncation_marker = 10"
  by (simp add: truncation_marker_def str_def)

lemma strip_long_document: "strip (page_content long_document) = replicate 200 120"
  by (simp add: long_document_def strip_def isspace_def)

lemma length_header_long_document: "length (header 0 long_document) = 15"
  by (simp add: header_def long_document_def str_def nl_def)

lemma total_content_doc_a: "total_content 0 doc_a = nl @ str ''[Document: a]'' @ nl @ str ''x''"
  by (simp add: total_content_def header_def doc_a_def strip_def isspace_def str_def)

lemma total_content_doc_b:
  "total_content (Suc 0) doc_b = nl @ str ''[Document: Document 2]'' @ nl @ str ''yy''"
  by (simp add: total_content_def header_def doc_b_def strip_def isspace_def str_def
      str_of_nat.simps)

text \<open>
  C4, as stated, fails: the first document of the list \<open>[long_document]\<close> exceeds the
  budget 100, the budget exceeds the 15 code points of the header (and also the header
  with the 50 code points the code reserves), and yet the returned context is empty.
\<close>

theorem create_rag_context_small_budget_empty:
  "int (length (header 0 long_document)) < 100 \<and>
   int (length (header 0 long_document)) + 50 < 100 \<and>
   int (length (total_content 0 long_document)) > 100 \<and>
   create_rag_context [long_document] 100 = []"
  by (simp add: create_rag_context_def total_content_def length_header_long_document
      strip_long_document)

text \<open>
  C4, amended: when the block of the first document exceeds the budget, the code truncates
  only if more than 100 code points remain after the header and 50 reserved ones, that is,
  if \<open>max_length\<close> exceeds the header's length by more than 150. Then the context is the
  header, the first \<open>max_length - len(header) - 50\<close> code points of the stripped content and
  the truncation marker; it is at most \<open>max_length\<close> long, ends with the marker and is not
  empty. With a smaller budget the context is empty.
\<close>

theorem create_rag_context_truncates_first:
  assumes "int (length (total_content 0 doc)) > max_length"
  shows "if max_length - int (length (header 0 doc)) - 50 > 100
         then create_rag_context (doc # rest) max_length =
                header 0 doc @
                take (nat (max_length - int (length (header 0 doc)) - 50))
                  (strip (page_content doc)) @
                truncation_marker \<and>
              int (length (create_rag_context (doc # rest) max_length)) \<le> max_length \<and>
              suffix truncation_marker (create_rag_context (doc # rest) max_length) \<and>
              create_rag_context (doc # rest) max_length \<noteq> []
         else create_rag_context (doc # rest) max_length = []"
proof (cases "max_length - int (length (header 0 doc)) - 50 > 100")
  case True
  have res: "create_rag_context (doc # rest) max_length =
        header 0 doc @
        take (nat (max_length - int (length (header 0 doc)) - 50)) (strip (page_content doc)) @
        truncation_marker"
    using assms True by (simp add: create_rag_context_def Let_def)
  have len: "int (length (create_rag_context (doc # rest) max_length)) \<le> max_length"
    unfolding res using True by (simp add: length_truncation_marker)
  have suf: "suffix truncation_marker (create_rag_context (doc # rest) max_length)"
    unfolding res by (simp add: suffix_def)
  have ne: "create_rag_context (doc # rest) max_length \<noteq> []"
    unfolding res by (simp add: truncation_marker_def str_def)
  from True res len suf ne show ?thesis by simp
next
  case False
  then show ?thesis using assms by (simp add: create_rag_context_def Let_def)
qed

theorem create_rag_context_truncates_first_witness:
  "int (length (total_content 0 long_document)) > 170 \<and>
   create_rag_context [long_document] 170 =
     header 0 long_document @ replicate 105 120 @ truncation_marker"
  using create_rag_context_truncates_first [of 170 long_document "[]"]
  by (simp add: length_header_long_document total_content_def strip_long_document)

lemma rag_loop_prefix:
  assumes "k \<le> length docs"
      and "int current_length + int (blocks_length (take k (blocks_from i docs))) \<le> max_length"
      and "k < length docs \<Longrightarrow>
             int current_length + int (blocks_length (take (Suc k) (blocks_from i docs)))
               > max_length"
      and "context_parts \<noteq> [] \<or> 0 < k"
  shows "rag_loop max_length i context_parts current_length docs =
           context_parts @ take k (blocks_from i docs)"
  using assms
proof (induction docs arbitrary: i context_parts current_length k)
  case Nil
  then show ?case by simp
next
  case (Cons doc rest)
  show ?case
  proof (cases "int current_length + int (length (total_content i doc)) > max_length")
    case True
    have "k = 0"
    proof (rule ccontr)
      assume "k \<noteq> 0"
      then obtain k' where "k = Suc k'" by (cases k) auto
      with Cons.prems(2) True show False by (simp add: blocks_length_def)
    qed
    with Cons.prems(4) True show ?thesis by simp
  next
    case False
    have "k \<noteq> 0"
    proof
      assume "k = 0"
      with Cons.prems(3) False show False by (simp add: blocks_length_def)
    qed
    then obtain k' where k: "k = Suc k'" by (cases k) auto
    have "rag_loop max_length (i + 1) (context_parts @ [total_content i doc])
            (current_length + length (total_content i doc)) rest =
          (context_parts @ [total_content i doc]) @ take k' (blocks_from (i + 1) rest)"
    proof (rule Cons.IH)
      show "k' \<le> length rest" using Cons.prems(1) k by simp
      show "int (current_length + length (total_content i doc)) +
              int (blocks_length (take k' (blocks_from (i + 1) rest))) \<le> max_length"
        using Cons.prems(2) k by (simp add: blocks_length_def)
      show "int (current_length + length (total_content i doc)) +
              int (blocks_length (take (Suc k') (blocks_from (i + 1) rest))) > max_length"
        if "k' < length rest"
        using Cons.prems(3) k that by (simp add: blocks_length_def)
      show "context_parts @ [total_content i doc] \<noteq> [] \<or> 0 < k'" by simp
    qed
    with False k show ?thesis by simp
  qed
qed

lemma total_content_doc_x: "total_content 0 doc_x = nl @ str ''[Document: a]'' @ nl @ str ''x''"
  by (simp add: total_content_def header_def doc_x_def strip_def isspace_def str_def)

text \<open>
  C5, as stated, fails: for the single document \<open>doc_x\<close>, which fits and has no white
  space to strip, the context is not the concatenation of the blocks as the specification
  words them: the code's block starts with a line break.
\<close>

theorem create_rag_context_not_spec_concatenation:
  "create_rag_context [doc_x] 4000 = nl @ str ''[Document: a]'' @ nl @ str ''x'' \<and>
   spec_concatenation [doc_x] = str ''[Document: a]'' @ nl @ str ''x'' \<and>
   create_rag_context [doc_x] 4000 \<noteq> spec_concatenation [doc_x]"
proof -
  have a: "create_rag_context [doc_x] 4000 = nl @ str ''[Document: a]'' @ nl @ str ''x''"
    by (simp add: create_rag_context_def total_content_doc_x str_def nl_def)
  have b: "spec_concatenation [doc_x] = str ''[Document: a]'' @ nl @ str ''x''"
    by (simp add: spec_concatenation_def spec_block_def doc_x_def str_def)
  show ?thesis unfolding a b by (simp add: nl_def str_def)
qed

text \<open>
  C5, amended: a block is a line break, \<open>[Document: <name>]\<close>, a line break and the stripped
  content, where a document without a source file is named \<open>Document <position>\<close>; the loop
  adds the lengths of the blocks and does not count separators. If the first \<open>k > 0\<close>
  blocks fit within \<open>max_length\<close> and the first \<open>k + 1\<close> do not (or there are only \<open>k\<close>
  documents), the context is these \<open>k\<close> blocks in the original order, joined by a line
  break. With \<open>k\<close> the number of documents, this is the case where all blocks fit.
\<close>

theorem create_rag_context_greedy_prefix:
  assumes "0 < k" and "k \<le> length documents"
      and "int (blocks_length (take k (blocks documents))) \<le> max_length"
      and "k < length documents \<Longrightarrow>
             int (blocks_length (take (Suc k) (blocks documents))) > max_length"
  shows "create_rag_context documents max_length = join nl (take k (blocks documents))"
proof -
  from assms(1,2) have ne: "documents \<noteq> []" by auto
  have "rag_loop max_length 0 [] 0 documents = [] @ take k (blocks_from 0 documents)"
    by (rule rag_loop_prefix) (use assms in \<open>simp_all add: blocks_def\<close>)
  with ne show ?thesis by (simp add: create_rag_context_def blocks_def)
qed

theorem create_rag_context_greedy_prefix_witness:
  "create_rag_context [doc_a, doc_b] 4000 =
     nl @ str ''[Document: a]'' @ nl @ str ''x'' @ nl @
     nl @ str ''[Document: Document 2]'' @ nl @ str ''yy'' \<and>
   create_rag_context [doc_a, doc_b] 20 = nl @ str ''[Document: a]'' @ nl @ str ''x''"
  using create_rag_context_greedy_prefix [of 2 "[doc_a, doc_b]" 4000]
    create_rag_context_greedy_prefix [of 1 "[doc_a, doc_b]" 20]
  by (simp add: blocks_def blocks_length_def total_content_doc_a total_content_doc_b)
     (simp add: nl_def str_def)

text \<open>The separators are not counted: two blocks of 16 and 26 code points fit the budget
  42, and the context is 43 code points long.\<close>

lemma create_rag_context_longer_than_budget:
  "length (create_rag_context [doc_a, doc_b] 42) = 43"
  by (simp add: create_rag_context_def total_content_doc_a total_content_doc_b nl_def str_def)

section \<open>Properties of the session memory\<close>

lemma valid_new_memory_service: "valid_references new_memory_service"
  by (simp add: valid_references_def new_memory_service_def)

lemma valid_get_session_history:
  "valid_references ms \<Longrightarrow> valid_references (snd (get_session_history ms sid))"
  by (auto simp: valid_references_def get_session_history_def less_Suc_eq split: option.splits)

lemma valid_add_message: "valid_references ms \<Longrightarrow> valid_references (add_message ms h m)"
  by (simp add: valid_references_def add_message_def)

lemma valid_clear: "valid_references ms \<Longrightarrow> valid_references (clear ms h)"
  by (simp add: valid_references_def clear_def)

lemma valid_clear_session_history:
  "valid_references ms \<Longrightarrow> valid_references (snd (clear_session_history ms sid))"
  by (simp add: clear_session_history_def valid_clear split: option.splits)

lemma valid_add_session_documents:
  "valid_references ms \<Longrightarrow> valid_references (snd (add_session_documents ms sid ds))"
  by (simp add: valid_references_def add_session_documents_def)

lemma valid_clear_session_documents:
  "valid_references ms \<Longrightarrow> valid_references (snd (clear_session_documents ms sid))"
  by (simp add: valid_references_def clear_session_documents_def split: option.splits)

lemma valid_lookup:
  "valid_references ms \<Longrightarrow> map_of (chat_histories ms) sid = Some h \<Longrightarrow>
   h < length (histories ms)"
  by (force simp: valid_references_def dest: map_of_SomeD)

lemma one_session_valid: "valid_references one_session"
  unfolding one_session_def
  by (intro valid_add_message valid_get_session_history valid_new_memory_service)

lemma one_session_eval:
  "chat_histories one_session = [(str ''s1'', 0)]"
  "histories one_session = [[HumanMessage (str ''hi'')]]"
  by (simp_all add: one_session_def get_session_history_def new_memory_service_def
      add_message_def)

text \<open>
  C8: clearing the history of a session that exists returns true and leaves the session
  with no message; clearing a session id that was never created returns false and leaves
  the store as it was.
\<close>

theorem clear_session_history_result:
  assumes "valid_references ms"
  shows "(sid \<in> set (list_active_sessions ms) \<longrightarrow>
            fst (clear_session_history ms sid) = True \<and>
            get_session_message_count (snd (clear_session_history ms sid)) sid = 0) \<and>
         (sid \<notin> set (list_active_sessions ms) \<longrightarrow>
            clear_session_history ms sid = (False, ms))"
proof (cases "map_of (chat_histories ms) sid")
  case None
  then have "sid \<notin> set (list_active_sessions ms)"
    by (simp add: list_active_sessions_def map_of_eq_None_iff)
  with None show ?thesis by (simp add: clear_session_history_def)
next
  case (Some h)
  then have "sid \<in> set (list_active_sessions ms)"
    by (force simp: list_active_sessions_def dest: map_of_SomeD)
  moreover have "h < length (histories ms)" using assms Some by (rule valid_lookup)
  ultimately show ?thesis using Some
    by (simp add: clear_session_history_def get_session_message_count_def clear_def
        history_messages_def)
qed

theorem clear_session_history_result_witness:
  "get_session_message_count one_session (str ''s1'') = 1 \<and>
   fst (clear_session_history one_session (str ''s1'')) = True \<and>
   get_session_message_count (snd (clear_session_history one_session (str ''s1'')))
     (str ''s1'') = 0 \<and>
   clear_session_history one_session (str ''s2'') = (False, one_session)"
  using clear_session_history_result [OF one_session_valid, of "str ''s1''"]
    clear_session_history_result [OF one_session_valid, of "str ''s2''"]
  by (simp add: list_active_sessions_def one_session_eval get_session_message_count_def
      history_messages_def str_def)

text \<open>
  C9: two lookups of the same session id return the same reference, the second without
  changing the store, so a message added through the first handle is read through the
  second.
\<close>

theorem get_session_history_same_instance:
  assumes "valid_references ms"
      and "get_session_history ms sid = (h1, ms1)"
      and "get_session_history ms1 sid = (h2, ms2)"
  shows "h2 = h1 \<and> ms2 = ms1 \<and>
         history_messages (add_message ms2 h1 m) h2 = history_messages ms2 h2 @ [m]"
proof -
  have look: "map_of (chat_histories ms1) sid = Some h1"
    using assms(2) by (auto simp: get_session_history_def map_add_def split: option.splits)
  have "valid_references ms1"
    using valid_get_session_history [OF assms(1), of sid] assms(2) by simp
  then have bound: "h1 < length (histories ms1)" using look by (rule valid_lookup)
  from look assms(3) have same: "h2 = h1" "ms2 = ms1"
    by (simp_all add: get_session_history_def)
  with bound show ?thesis by (simp add: history_messages_def add_message_def)
qed

theorem get_session_history_same_instance_witness:
  "get_session_history new_memory_service (str ''s1'') =
     (0, snd (get_session_history new_memory_service (str ''s1''))) \<and>
   get_session_history (snd (get_session_history new_memory_service (str ''s1''))) (str ''s1'') =
     (0, snd (get_session_history new_memory_service (str ''s1''))) \<and>
   history_messages
     (add_message (snd (get_session_history new_memory_service (str ''s1''))) 0
        (HumanMessage (str ''hi''))) 0 = [HumanMessage (str ''hi'')]"
proof -
  have g1: "get_session_history new_memory_service (str ''s1'') =
              (0, snd (get_session_history new_memory_service (str ''s1'')))"
    by (simp add: get_session_history_def new_memory_service_def)
  have g2: "get_session_history (snd (get_session_history new_memory_service (str ''s1'')))
              (str ''s1'') = (0, snd (get_session_history new_memory_service (str ''s1'')))"
    by (simp add: get_session_history_def new_memory_service_def)
  from get_session_history_same_instance [OF valid_new_memory_service g1 g2,
      of "HumanMessage (str ''hi'')"] g1 g2
  show ?thesis
    by (simp add: history_messages_def get_session_history_def new_memory_service_def)
qed

text \<open>
  C10: clearing the message history of a session changes neither the documents of any
  session nor the list of active sessions; clearing the documents of a session changes
  neither the session dictionary nor any history, and leaves the session without
  documents.
\<close>

theorem clear_operations_frame:
  "session_documents (snd (clear_session_history ms sid)) = session_documents ms \<and>
   get_session_document_count (snd (clear_session_history ms sid)) sid' =
     get_session_document_count ms sid' \<and>
   list_active_sessions (snd (clear_session_history ms sid)) = list_active_sessions ms \<and>
   chat_histories (snd (clear_session_documents ms sid)) = chat_histories ms \<and>
   histories (snd (clear_session_documents ms sid)) = histories ms \<and>
   get_session_message_count (snd (clear_session_documents ms sid)) sid' =
     get_session_message_count ms sid' \<and>
   get_session_document_count (snd (clear_session_documents ms sid)) sid = 0"
  by (auto simp: clear_session_history_def clear_session_documents_def clear_def
      get_session_document_count_def get_session_documents_def list_active_sessions_def
      get_session_message_count_def history_messages_def split: option.splits)

section \<open>Properties of the reply parsing\<close>

lemma split_code_no_marker:
  "\<not> contains CODE response_text \<Longrightarrow>
   split_code env response_text code0 filename0 language0 = (code0, filename0, language0)"
  by (simp add: split_code_def)

lemma full_generation_parsing_explanation0:
  "full_generation_parsing env response_text (incremental_explanation [] response_text) f l =
   full_generation_parsing env response_text [] f l"
  by (simp add: full_generation_parsing_def split_explanation_def incremental_explanation_def
      Let_def split: prod.splits)

lemma full_generation_parsing_no_update:
  "p_incremental_update (full_generation_parsing env response_text e0 f l) = None"
  by (simp add: full_generation_parsing_def Let_def split: prod.splits)

lemma full_generation_parsing_no_code_marker:
  "\<not> contains CODE response_text \<Longrightarrow>
   full_generation_parsing env response_text e0 f l =
     \<lparr>p_code = response_text, p_explanation = generic_explanation, p_filename = f,
      p_language = l, p_incremental_update = None\<rparr>"
  by (simp add: full_generation_parsing_def split_code_no_marker)

lemma full_generation_parsing_code_not_empty:
  "response_text \<noteq> [] \<Longrightarrow> p_code (full_generation_parsing env response_text e0 f l) \<noteq> []"
  by (simp add: full_generation_parsing_def Let_def split: prod.splits)

lemma search_operations_contains:
  "search_operations s = Some g \<Longrightarrow> contains INCREMENTAL_OPERATIONS s"
proof (induction s)
  case Nil
  then show ?case by simp
next
  case (Cons c cs)
  show ?case
  proof (cases "match_operations_here (c # cs)")
    case None
    with Cons show ?thesis by simp
  next
    case (Some g')
    then have "prefix INCREMENTAL_OPERATIONS (c # cs)"
      by (simp add: match_operations_here_def split: if_splits)
    then show ?thesis by simp
  qed
qed

text \<open>A parsing that returns an incremental update returns no code.\<close>

lemma parse_response_update_without_code:
  assumes "parse_response env has_code current_filename current_language response_text = Inr p"
      and "p_incremental_update p \<noteq> None"
  shows "p_code p = []"
  using assms
  by (auto simp: parse_response_def Let_def full_generation_parsing_no_update
      split: if_splits sum.splits option.splits)

lemma search_operations_malformed_reply:
  "search_operations malformed_reply = Some (str ''[{oops]'')"
  by (simp add: malformed_reply_def str_def nl_def match_operations_here_def
      INCREMENTAL_OPERATIONS_def isspace_def)

lemma search_operations_array_reply: "search_operations array_reply = Some (str ''[1]'')"
  by (simp add: array_reply_def str_def nl_def match_operations_here_def
      INCREMENTAL_OPERATIONS_def isspace_def)

lemma no_code_marker_malformed_reply: "\<not> contains CODE malformed_reply"
  by (simp add: malformed_reply_def str_def nl_def CODE_def)

text \<open>
  C6, as stated, fails: \<open>array_reply\<close> has no \<open>CODE:\<close> marker and its array \<open>[1]\<close> decodes,
  but its element is a number and cannot be made into an operation. The parsing does not
  fall back: the exception is not of a class that the inner handler catches and goes to
  the outer handler, which answers with an error message. This is so whether the import
  of line 451 raises, as in this source tree, or not.
\<close>

theorem parse_response_array_of_number_raises:
  "\<not> contains CODE array_reply \<and>
   parse_response array_env True None None array_reply =
     Inl (ModuleNotFoundError
            (str ''No module named '' @ [39] @ str ''app.services.models'' @ [39])) \<and>
   parse_response (array_env\<lparr>import_schemas := None\<rparr>) True None None array_reply =
     Inl (AttributeError
            ([39] @ str ''int'' @ [39] @ str '' object has no attribute '' @ [39] @
             str ''get'' @ [39]))"
proof -
  have a: "\<not> contains CODE array_reply"
    by (simp add: array_reply_def str_def nl_def CODE_def)
  have m: "contains INCREMENTAL_OPERATIONS array_reply"
    using search_operations_array_reply by (rule search_operations_contains)
  have b: "parse_operations array_env x array_reply =
     Inl (ModuleNotFoundError
            (str ''No module named '' @ [39] @ str ''app.services.models'' @ [39]))" for x
    by (simp add: parse_operations_def search_operations_array_reply array_env_def
        code_env_def source_tree_import_def)
  have c: "parse_operations (array_env\<lparr>import_schemas := None\<rparr>) x array_reply =
     Inl (AttributeError
            ([39] @ str ''int'' @ [39] @ str '' object has no attribute '' @ [39] @
             str ''get'' @ [39]))" for x
    by (simp add: parse_operations_def search_operations_array_reply array_env_def
        code_env_def)
  show ?thesis using a m by (simp add: parse_response_def b c)
qed

text \<open>
  C6, amended: when there is editor code and the reply holds an operations array, and
  decoding the array or building the operations from the decoded value raises an exception
  of a class the inner handler catches (\<open>JSONDecodeError\<close>, \<open>KeyError\<close>, \<open>ValueError\<close>, which
  includes pydantic's validation error), the parsing is the full generation parsing of the
  raw reply with no incremental update; so with no \<open>CODE:\<close> marker the code is the whole
  reply.
\<close>

theorem parse_response_caught_failure_falls_back:
  assumes "has_code"
      and "search_operations response_text = Some operations_json"
      and "json_loads env operations_json = Inl e \<or>
           (json_loads env operations_json = Inr operations_data \<and>
            import_schemas env = None \<and>
            iterate operations_data = Inr elements \<and>
            make_operations env elements = Inl e)"
      and "caught e"
  shows "parse_response env has_code current_filename current_language response_text =
           Inr (full_generation_parsing env response_text []
                  (or_else current_filename (str ''index.html''))
                  (or_else current_language (str ''html''))) \<and>
         p_incremental_update
           (full_generation_parsing env response_text []
              (or_else current_filename (str ''index.html''))
              (or_else current_language (str ''html''))) = None \<and>
         (\<not> contains CODE response_text \<longrightarrow>
            p_code
              (full_generation_parsing env response_text []
                 (or_else current_filename (str ''index.html''))
                 (or_else current_language (str ''html''))) = response_text)"
proof -
  have marker: "contains INCREMENTAL_OPERATIONS response_text"
    using assms(2) by (rule search_operations_contains)
  have raised: "parse_operations env (incremental_explanation [] response_text) response_text
                  = Inl e"
    using assms(2,3) by (auto simp: parse_operations_def)
  have "parse_response env has_code current_filename current_language response_text =
           Inr (full_generation_parsing env response_text []
                  (or_else current_filename (str ''index.html''))
                  (or_else current_language (str ''html'')))"
    using assms(1,4) marker raised
    by (simp add: parse_response_def Let_def full_generation_parsing_explanation0)
  then show ?thesis
    by (simp add: full_generation_parsing_no_update full_generation_parsing_no_code_marker)
qed

theorem parse_response_caught_failure_falls_back_witness:
  "search_operations malformed_reply = Some (str ''[{oops]'') \<and>
   json_loads code_env (str ''[{oops]'') = Inl (JSONDecodeError (str ''Expecting value'')) \<and>
   parse_response code_env True None None malformed_reply =
     Inr \<lparr>p_code = malformed_reply, p_explanation = generic_explanation,
          p_filename = str ''index.html'', p_language = str ''html'',
          p_incremental_update = None\<rparr>"
  using parse_response_caught_failure_falls_back
    [of True malformed_reply "str ''[{oops]''" code_env
      "JSONDecodeError (str ''Expecting value'')" JNull "[]" None None]
    search_operations_malformed_reply no_code_marker_malformed_reply
  by (simp add: code_env_def or_else_def full_generation_parsing_no_code_marker)

text \<open>
  C7: the full generation parsing of the reply of the specification gives the explanation
  \<open>fixes bug\<close>, the code \<open><p>hi</p>\<close>, the file name \<open>index.html\<close> and the language \<open>html\<close>; a
  reply without a \<open>CODE:\<close> marker becomes the code as a whole, with the generic
  explanation; and a reply that is not empty never gives an empty artifact: the full
  generation parsing gives code, and the parsing as a whole gives code or an incremental
  update.
\<close>

theorem full_generation_parsing_reply:
  "full_generation_parsing env example_reply e0 f0 l0 =
     \<lparr>p_code = str ''<p>hi</p>'', p_explanation = str ''fixes bug'',
      p_filename = str ''index.html'', p_language = str ''html'',
      p_incremental_update = None\<rparr> \<and>
   (\<not> contains CODE response_text \<longrightarrow>
      p_code (full_generation_parsing env response_text e0 f0 l0) = response_text \<and>
      p_explanation (full_generation_parsing env response_text e0 f0 l0) = generic_explanation) \<and>
   (response_text \<noteq> [] \<longrightarrow>
      p_code (full_generation_parsing env response_text e0 f0 l0) \<noteq> [] \<and>
      (\<forall>p. parse_response env has_code current_filename current_language response_text = Inr p
         \<longrightarrow> p_code p \<noteq> [] \<or> p_incremental_update p \<noteq> None))"
proof -
  have example: "full_generation_parsing env example_reply e0 f0 l0 =
     \<lparr>p_code = str ''<p>hi</p>'', p_explanation = str ''fixes bug'',
      p_filename = str ''index.html'', p_language = str ''html'',
      p_incremental_update = None\<rparr>"
    by (simp add: full_generation_parsing_def split_code_def split_explanation_def
        example_reply_def str_def nl_def CODE_def FILENAME_def LANGUAGE_def EXPLANATION_def
        split_def strip_def isspace_def lower_def Let_def)
  have whole: "p_code p \<noteq> [] \<or> p_incremental_update p \<noteq> None"
    if "response_text \<noteq> []"
      and "parse_response env has_code current_filename current_language response_text = Inr p"
    for p
    using that
    by (auto simp: parse_response_def Let_def full_generation_parsing_code_not_empty
        split: if_splits sum.splits option.splits)
  show ?thesis
    using example whole
    by (simp add: full_generation_parsing_no_code_marker full_generation_parsing_code_not_empty)
qed

theorem full_generation_parsing_reply_witness:
  "\<not> contains CODE (str ''hello'') \<and> str ''hello'' \<noteq> [] \<and>
   full_generation_parsing code_env (str ''hello'') [] (str ''index.html'') (str ''html'') =
     \<lparr>p_code = str ''hello'', p_explanation = generic_explanation,
      p_filename = str ''index.html'', p_language = str ''html'',
      p_incremental_update = None\<rparr> \<and>
   parse_response code_env False None None (str ''hello'') =
     Inr \<lparr>p_code = str ''hello'', p_explanation = generic_explanation,
          p_filename = str ''index.html'', p_language = str ''html'',
          p_incremental_update = None\<rparr>"
proof -
  have a: "\<not> contains CODE (str ''hello'')" by (simp add: CODE_def str_def)
  have b: "full_generation_parsing code_env (str ''hello'') [] (str ''index.html'') (str ''html'') =
     \<lparr>p_code = str ''hello'', p_explanation = generic_explanation,
      p_filename = str ''index.html'', p_language = str ''html'',
      p_incremental_update = None\<rparr>"
    using a by (rule full_generation_parsing_no_code_marker)
  have c: "parse_response code_env False None None (str ''hello'') =
     Inr (full_generation_parsing code_env (str ''hello'') [] (str ''index.html'') (str ''html''))"
    by (simp add: parse_response_def or_else_def str_def)
  from full_generation_parsing_reply
    [of code_env "[]" "str ''index.html''" "str ''html''" "str ''hello''" False None None]
    a b c
  show ?thesis by (simp add: str_def)
qed

section \<open>Properties of the supervisor\<close>

lemma chat_agent_keeps_classification:
  "\<exists>state'. fst (chat_agent env ms state) = Inr state' \<and>
      request_type state' = request_type state \<and> confidence state' = confidence state \<and>
      reasoning state' = reasoning state"
  by (auto simp: chat_agent_def Let_def split: prod.splits sum.splits)

lemma supervisor_node_classifier_raises:
  assumes "classify env (classification_prompt ms state) = Inl e"
      and "messages state \<noteq> []"
  shows "supervisor_node env ms state =
           (Inr (ToChatAgent,
                 state\<lparr>request_type := str ''chat'', confidence := 1 / 2,
                       reasoning := str ''Classification failed: '' @ exn_str e\<rparr>),
            snd (get_session_history ms (session_id state)))"
  using assms by (simp add: supervisor_node_def Let_def)

text \<open>
  The code agent raises on every request it is given: building its prompt raises in either
  mode, before the \<^verbatim>\<open>try\<close> block.
\<close>

lemma code_agent_raises:
  assumes "messages state \<noteq> []"
  shows "\<exists>e. fst (code_agent env ms state) = Inl e"
  using assms
  by (simp add: code_agent_def code_prompt_def Let_def split: prod.splits mode.splits)

text \<open>The mode test of the code agent is the conjunction of the flag and the editor code,
  but neither reaches it: the dictionary given to the graph has no key for the flag, and
  the graph drops the editor code. Every state that a node receives selects full
  generation, and the editor context and the flag of a request have no influence on the
  traversal.\<close>

lemma select_mode_incremental_iff:
  "select_mode state = Incremental \<longleftrightarrow> enable_incremental state \<and> has_existing_code state"
  by (simp add: select_mode_def)

lemma initial_state_ignores_flag:
  "initial_state (request\<lparr>req_enable_incremental_updates := b\<rparr>) = initial_state request"
  by (simp add: initial_state_def request_session_id_def)

lemma select_mode_declared_keys: "select_mode (declared_keys state) = FullGeneration"
  by (simp add: select_mode_def has_existing_code_def declared_keys_def)

lemma graph_invoke_declared_keys:
  "declared_keys state = declared_keys state' \<Longrightarrow>
   graph_invoke env ms state = graph_invoke env ms state'"
  by (simp add: graph_invoke_def)

lemma graph_invoke_ignores_editor_context:
  "graph_invoke env ms
     (initial_state (request\<lparr>req_currentCode := c, req_currentFilename := f,
        req_currentLanguage := l, req_enable_incremental_updates := b\<rparr>)) =
   graph_invoke env ms (initial_state request)"
  by (rule graph_invoke_declared_keys)
     (simp add: declared_keys_def initial_state_def request_session_id_def)

lemma classification_prompt_declared_keys:
  "classification_prompt ms (declared_keys state) = classification_prompt ms state"
  by (simp add: classification_prompt_def declared_keys_def)

text \<open>
  C1, at a request that switches incremental updates on and carries editor code, where
  the claim has incremental mode: the request is classified as code, and the state that
  the code agent receives from the graph selects full generation mode. The response shows
  the exception of the full generation prompt.
\<close>

theorem editor_code_not_forwarded:
  "req_enable_incremental_updates flag_on_request = Some True \<and>
   req_currentCode flag_on_request = Some (str ''<p>hi</p>'') \<and>
   has_existing_code (initial_state flag_on_request) \<and>
   (case fst (supervisor_node code_env new_memory_service
                (declared_keys (initial_state flag_on_request))) of
      Inr (next_node, state) \<Rightarrow>
        next_node = ToCodeAgent \<and> select_mode (declared_keys state) = FullGeneration
    | Inl e \<Rightarrow> False) \<and>
   reasoning (fst (supervisor_routing code_env new_memory_service flag_on_request)) =
     str ''Processing error: name '' @ [39] @ str ''rag_context'' @ [39] @
     str '' is not defined''"
proof -
  have a: "has_existing_code (initial_state flag_on_request)"
    by (simp add: has_existing_code_def initial_state_def flag_on_request_def strip_def
        isspace_def str_def)
  have b: "fst (supervisor_node code_env new_memory_service
                  (declared_keys (initial_state flag_on_request))) =
     Inr (ToCodeAgent, (declared_keys (initial_state flag_on_request))\<lparr>
        request_type := str ''code'', confidence := 9 / 10,
        reasoning := str ''asks for code''\<rparr>)"
    by (simp add: supervisor_node_def code_env_def initial_state_def declared_keys_def Let_def)
  have c: "reasoning (fst (supervisor_routing code_env new_memory_service flag_on_request)) =
     str ''Processing error: name '' @ [39] @ str ''rag_context'' @ [39] @
     str '' is not defined''"
    by (simp add: supervisor_routing_def process_request_def graph_invoke_def merge_update_def
        declared_keys_def supervisor_node_def code_agent_def code_prompt_def select_mode_def
        has_existing_code_def enable_incremental_def initial_state_def request_session_id_def
        flag_on_request_def valid_config_def code_env_def create_llm_def or_else_def
        get_session_history_def new_memory_service_def add_message_def Let_def str_def)
  show ?thesis
    using a b c by (simp add: flag_on_request_def select_mode_declared_keys)
qed

text \<open>
  C2: if the call of the classifier raises, the supervisor node sends the request to the
  chat agent with request type \<open>chat\<close>, confidence 0.5 and a reasoning that ends with the
  message of the exception; and \<^verbatim>\<open>process_request\<close> returns a dictionary with these three
  values, not an exception.
\<close>

theorem classification_failure_defaults_to_chat:
  assumes "classify env (classification_prompt ms (initial_state request)) = Inl e"
      and "create_llm (config request) = Inr ()"
  shows "fst (supervisor_node env ms (initial_state request)) =
           Inr (ToChatAgent,
                (initial_state request)\<lparr>request_type := str ''chat'', confidence := 1 / 2,
                   reasoning := str ''Classification failed: '' @ exn_str e\<rparr>) \<and>
         (case fst (process_request env ms request) of
            Inr result \<Rightarrow>
              request_type result = str ''chat'' \<and> confidence result = 1 / 2 \<and>
              reasoning result = str ''Classification failed: '' @ exn_str e
          | Inl e' \<Rightarrow> False)"
proof -
  let ?init = "initial_state request"
  let ?ms1 = "snd (get_session_history ms (session_id ?init))"
  let ?st = "(declared_keys ?init)\<lparr>request_type := str ''chat'', confidence := 1 / 2,
                reasoning := str ''Classification failed: '' @ exn_str e\<rparr>"
  have messages: "messages ?init \<noteq> []" by (simp add: initial_state_def)
  have node: "fst (supervisor_node env ms ?init) =
           Inr (ToChatAgent,
                ?init\<lparr>request_type := str ''chat'', confidence := 1 / 2,
                   reasoning := str ''Classification failed: '' @ exn_str e\<rparr>)"
    using supervisor_node_classifier_raises [OF assms(1) messages] by simp
  have "classify env (classification_prompt ms (declared_keys ?init)) = Inl e"
    using assms(1) by (simp add: classification_prompt_declared_keys)
  moreover have "messages (declared_keys ?init) \<noteq> []"
    using messages by (simp add: declared_keys_def)
  ultimately have graph_node:
    "supervisor_node env ms (declared_keys ?init) = (Inr (ToChatAgent, ?st), ?ms1)"
    using supervisor_node_classifier_raises [of env ms "declared_keys ?init" e]
    by (simp add: declared_keys_def)
  obtain st' where st': "fst (chat_agent env ?ms1 (declared_keys ?st)) = Inr st'"
     "request_type st' = request_type (declared_keys ?st)"
     "confidence st' = confidence (declared_keys ?st)"
     "reasoning st' = reasoning (declared_keys ?st)"
    using chat_agent_keeps_classification [of env ?ms1 "declared_keys ?st"] by blast
  have "fst (graph_invoke env ms ?init) = Inr (declared_keys st')"
    using st'(1)
    by (cases "chat_agent env ?ms1 (declared_keys ?st)")
       (simp add: graph_invoke_def graph_node merge_update_def)
  moreover have "request_type (declared_keys st') = str ''chat''"
    "confidence (declared_keys st') = 1 / 2"
    "reasoning (declared_keys st') = str ''Classification failed: '' @ exn_str e"
    using st'(2-4) by (simp_all add: declared_keys_def)
  ultimately have "case fst (process_request env ms request) of
            Inr result \<Rightarrow>
              request_type result = str ''chat'' \<and> confidence result = 1 / 2 \<and>
              reasoning result = str ''Classification failed: '' @ exn_str e
          | Inl e' \<Rightarrow> False"
    using assms(2)
    by (auto simp: process_request_def split: prod.splits sum.splits)
  with node show ?thesis by simp
qed

theorem classification_failure_defaults_to_chat_witness:
  "classify failing_env (classification_prompt new_memory_service (initial_state new_page_request))
     = Inl (ModelError (str ''connection refused'')) \<and>
   create_llm (config new_page_request) = Inr () \<and>
   fst (supervisor_node failing_env new_memory_service (initial_state new_page_request)) =
     Inr (ToChatAgent,
          (initial_state new_page_request)\<lparr>request_type := str ''chat'', confidence := 1 / 2,
             reasoning := str ''Classification failed: connection refused''\<rparr>) \<and>
   (case fst (process_request failing_env new_memory_service new_page_request) of
      Inr result \<Rightarrow>
        request_type result = str ''chat'' \<and> confidence result = 1 / 2 \<and>
        reasoning result = str ''Classification failed: connection refused''
    | Inl e' \<Rightarrow> False)"
proof -
  have a: "classify failing_env
             (classification_prompt new_memory_service (initial_state new_page_request))
           = Inl (ModelError (str ''connection refused''))"
    by (simp add: failing_env_def code_env_def)
  have b: "create_llm (config new_page_request) = Inr ()"
    by (simp add: create_llm_def new_page_request_def valid_config_def or_else_def str_def)
  from classification_failure_defaults_to_chat [OF a b] a b show ?thesis
    by (auto simp: str_def split: sum.splits)
qed

text \<open>
  C3, at a request that is classified as code: the traversal raises in the code agent,
  \<^verbatim>\<open>process_request\<close> catches the exception, writes the user turn and an error turn to the
  session log and returns the request type \<open>error\<close>; the response of the endpoint carries
  this request type and the error message with \<open>success = True\<close>, where the claim has
  \<open>success = False\<close>.
\<close>

theorem traversal_error_reported_as_success:
  "fst (supervisor_routing code_env new_memory_service new_page_request) =
     \<lparr>request_type = str ''error'',
      confidence = 0,
      reasoning = str ''Processing error: name '' @ [39] @ str ''rag_context'' @ [39] @
                  str '' is not defined'',
      response = request_error_prefix @ str ''name '' @ [39] @ str ''rag_context'' @ [39] @
                 str '' is not defined'',
      generated_code = [],
      filename = str ''index.html'',
      language = str ''html'',
      incremental_update = None,
      success = True\<rparr> \<and>
   histories (snd (supervisor_routing code_env new_memory_service new_page_request)) =
     [[HumanMessage (str ''build my CV page''),
       AIMessage (log_error_prefix @ str ''name '' @ [39] @ str ''rag_context'' @ [39] @
                  str '' is not defined'')]]"
  by (simp add: supervisor_routing_def process_request_def graph_invoke_def merge_update_def
      declared_keys_def supervisor_node_def code_agent_def code_prompt_def select_mode_def
      has_existing_code_def enable_incremental_def initial_state_def request_session_id_def
      new_page_request_def valid_config_def code_env_def create_llm_def or_else_def
      get_session_history_def new_memory_service_def add_message_def Let_def str_def)

text \<open>An invalid configuration raises out of \<^verbatim>\<open>process_request\<close>, with nothing written to the
  session log; only then does the endpoint answer with \<open>success = False\<close>.\<close>

lemma process_request_invalid_configuration:
  assumes "create_llm (config request) = Inl e"
  shows "process_request env ms request = (Inl e, ms) \<and>
         success (fst (supervisor_routing env ms request)) = False \<and>
         snd (supervisor_routing env ms request) = ms"
  using assms by (simp add: process_request_def supervisor_routing_def)

text \<open>The same for every request and environment: whenever the traversal raises, the
  response of the endpoint has the request type \<open>error\<close> and \<open>success = True\<close>.\<close>

lemma supervisor_routing_traversal_error:
  assumes "create_llm (config request) = Inr ()"
      and "fst (graph_invoke env ms (initial_state request)) = Inl e"
  shows "request_type (fst (supervisor_routing env ms request)) = str ''error'' \<and>
         success (fst (supervisor_routing env ms request)) = True"
  using assms
  by (auto simp: supervisor_routing_def process_request_def Let_def
      split: prod.splits sum.splits)

end
